theory Spec2Isabelle
  imports Main
begin

section \<open>Data model (types.ts)\<close>

text \<open>
  JavaScript strings are modelled as \<open>string\<close>; a character stands for one UTF-16 code
  unit below 256, and \<open>length\<close> is the \<open>.length\<close> of the source. Optional properties
  (\<open>image?: string\<close>) are \<open>option\<close> values, \<open>None\<close> being \<open>undefined\<close>. The
  string-literal unions of the source (\<open>TemplateId\<close>, \<open>detailLevel\<close>, \<open>audience\<close>) exist
  only for the type checker: at run time they are strings, and are strings here. The three
  interfaces share property names, so the fields carry a prefix: \<open>s_\<close> for
  \<open>SlideData\<close>, \<open>p_\<close> for \<open>PresentationData\<close>; \<open>GenerationConfig\<close> keeps the
  names of the source.
\<close>

datatype AppStatus = IDLE | PARSING_PDF | GENERATING_CONTENT | GENERATING_PPT | SUCCESS | ERROR

record SlideData =
  s_title :: string
  s_bulletPoints :: "string list"
  s_speakerNotes :: string
  s_image :: "string option"

record PresentationData =
  p_title :: string
  p_subtitle :: "string option"
  p_slides :: "SlideData list"
  p_template :: "string option"
  p_titleImage :: "string option"

record GenerationConfig =
  numSlides :: int
  detailLevel :: string
  audience :: string
  template :: string
  titleImage :: "string option"

text \<open>A thrown \<open>Error\<close> with its \<open>message\<close>; a rejection without a message is
  \<open>Error []\<close>.\<close>

datatype error = Error string

fun message :: "error \<Rightarrow> string" where
  "message (Error m) = m"

section \<open>JavaScript operators used by the source\<close>

text \<open>\<open>a || b\<close> on strings: the empty string and \<open>undefined\<close> are falsy.\<close>

definition js_or :: "string \<Rightarrow> string \<Rightarrow> string" where
  "js_or a b = (if a = [] then b else a)"


fun truthy :: "string option \<Rightarrow> bool" where
  "truthy None = False"
| "truthy (Some a) = (a \<noteq> [])"

text \<open>\<open>Array.prototype.join\<close>.\<close>

fun join :: "string \<Rightarrow> string list \<Rightarrow> string" where
  "join sep [] = []"
| "join sep [x] = x"
| "join sep (x # y # ys) = x @ sep @ join sep (y # ys)"

text \<open>\<open>String.prototype.trim\<close>: the white space and line terminators of ECMAScript
  among the code units below 256 (TAB, LF, VT, FF, CR, SP, NBSP).\<close>

definition isWhiteSpace :: "char \<Rightarrow> bool" where
  "isWhiteSpace c = (of_char c \<in> {9, 10, 11, 12, 13, 32, 160 :: nat})"

definition trim :: "string \<Rightarrow> string" where
  "trim s = rev (dropWhile isWhiteSpace (rev (dropWhile isWhiteSpace s)))"

text \<open>The conversion of a number to a string inside a template literal
  (\<open>Number.prototype.toString\<close>), for an integral number: decimal digits, most
  significant first, after a minus sign for a negative one.\<close>

definition digitChar :: "nat \<Rightarrow> char" where
  "digitChar d = ''0123456789'' ! d"

fun digitsOf :: "nat \<Rightarrow> string" where
  "digitsOf n = (if 10 \<le> n then digitsOf (n div 10) @ [digitChar (n mod 10)] else [digitChar n])"

definition numberToString :: "int \<Rightarrow> string" where
  "numberToString k = (if 0 \<le> k then digitsOf (nat k) else CHR ''-'' # digitsOf (nat (- k)))"

section \<open>Document ingestion (services/pdfService.ts, App.handleFileUpload)\<close>

text \<open>
  A \<open>File\<close> is described by what the browser and PDF.js return for it:
  \<^item> \<open>ftype\<close>: \<open>file.type\<close>, the declared content type;
  \<^item> \<open>ftext\<close>: the outcome of \<open>file.text()\<close>;
  \<^item> \<open>fpdf\<close>: the outcome of \<open>file.arrayBuffer()\<close>, the import of PDF.js and
    \<open>getDocument\<close>: \<open>None\<close> when one of them rejects, otherwise the pages, so that
    \<open>pdf.numPages\<close> is the length of the list. A page is \<open>None\<close> when \<open>getPage\<close> or
    \<open>getTextContent\<close> rejects for it, otherwise the \<open>str\<close> of each of its text items;
  \<^item> \<open>fdataURL\<close>: the outcome of \<open>FileReader.readAsDataURL\<close> (\<open>fileToBase64\<close>),
    \<open>None\<close> when the reader reports an error.
\<close>

type_synonym PdfPage = "string list option"

record File =
  ftype :: string
  ftext :: "error + string"
  fpdf :: "PdfPage list option"
  fdataURL :: "string option"

definition PdfExtractFailed :: error where
  "PdfExtractFailed = Error ''Failed to extract text from PDF. Please try copying the text manually.''"

definition UnsupportedFormat :: error where
  "UnsupportedFormat = Error ''Unsupported file format. Please upload PDF or TXT.''"

definition EmptyOrUnreadable :: error where
  "EmptyOrUnreadable = Error ''The document appears to be empty or unreadable.''"

text \<open>\<open>pdf.getPage(i)\<close> followed by \<open>page.getTextContent()\<close>; page numbers start at 1,
  and PDF.js rejects a page number outside the document.\<close>

definition getPage :: "PdfPage list \<Rightarrow> nat \<Rightarrow> PdfPage" where
  "getPage pdf i = (if 1 \<le> i \<and> i \<le> length pdf then pdf ! (i - 1) else None)"

text \<open>The loop \<open>for (let i = 1; i <= maxPages; i++)\<close> of \<open>extractTextFromPdf\<close>, from
  the counter \<open>i\<close> and the text accumulated so far; \<open>None\<close> when a page rejects.\<close>

function extractPages :: "PdfPage list \<Rightarrow> nat \<Rightarrow> nat \<Rightarrow> string \<Rightarrow> string option" where
  "extractPages pdf maxPages i fullText =
     (if i \<le> maxPages then
        (case getPage pdf i of
           None \<Rightarrow> None
         | Some items \<Rightarrow>
             extractPages pdf maxPages (i + 1)
               (fullText @ join '' '' items @ ''\<newline>\<newline>''))
      else Some fullText)"
  by pat_completeness auto
termination
  by (relation "measure (\<lambda>(pdf, maxPages, i, fullText). maxPages + 1 - i)") auto

declare extractPages.simps [simp del]

text \<open>Every failure inside the \<open>try\<close> is caught and replaced by one error.\<close>

definition extractTextFromPdf :: "File \<Rightarrow> error + string" where
  "extractTextFromPdf file =
     (case fpdf file of
        None \<Rightarrow> Inl PdfExtractFailed
      | Some pdf \<Rightarrow>
          (let numPages = length pdf;
               maxPages = min numPages 15
           in case extractPages pdf maxPages 1 [] of
                None \<Rightarrow> Inl PdfExtractFailed
              | Some fullText \<Rightarrow> Inr fullText))"

text \<open>The body of the \<open>try\<close> in \<open>handleFileUpload\<close> up to the two \<open>throw\<close>s: the text
  the upload yields, or the error that is thrown.\<close>

definition readDocument :: "File \<Rightarrow> error + string" where
  "readDocument file =
     (if ftype file = ''application/pdf'' then extractTextFromPdf file
      else if ftype file = ''text/plain'' then ftext file
      else Inl UnsupportedFormat)"

definition parseDocument :: "File \<Rightarrow> error + string" where
  "parseDocument file =
     (case readDocument file of
        Inl err \<Rightarrow> Inl err
      | Inr text \<Rightarrow> if length text < 50 then Inl EmptyOrUnreadable else Inr text)"

section \<open>Content generator (generatePresentationContent)\<close>

text \<open>
  The outside world of the generator and of the export: the API key of the environment,
  the remote call (\<open>generateContent\<close>, from the prompt to a rejection or to
  \<open>response.text\<close>), \<open>JSON.parse\<close> with the three properties the source reads from its
  result, and \<open>generatePptFile\<close> of services/pptService, which is not part of the
  sources at hand and of which only success or failure matters to the controller.
\<close>

record GeneratedContent =
  g_title :: string
  g_subtitle :: "string option"
  g_slides :: "SlideData list"

record Env =
  apiKey :: "string option"
  generateContent :: "string \<Rightarrow> error + string option"
  jsonParse :: "string \<Rightarrow> error + GeneratedContent"
  generatePptFile :: "PresentationData \<Rightarrow> error option"

definition MissingCredential :: error where
  "MissingCredential = Error ''API Key is missing. Please check your environment configuration.''"

definition NoContent :: error where
  "NoContent = Error ''No content generated''"

definition buildPrompt :: "string \<Rightarrow> GenerationConfig \<Rightarrow> string" where
  "buildPrompt text config =
     ''\<newline>'' @
     ''    Analyze the following academic/research text and structure it into a PowerPoint presentation.\<newline>'' @
     ''    \<newline>'' @
     ''    Target Audience: '' @ audience config @ ''\<newline>'' @
     ''    Detail Level: '' @ detailLevel config @ ''\<newline>'' @
     ''    Approximate Number of Slides: '' @ numberToString (numSlides config) @ ''\<newline>'' @
     ''    \<newline>'' @
     ''    Requirements:\<newline>'' @
     ''    1. Create a compelling Title Slide.\<newline>'' @
     ''    2. Break down the paper into logical sections (Introduction, Methodology, Results, Discussion, Conclusion).\<newline>'' @
     ''    3. For each slide, provide a clear Title, 3-5 concise Bullet Points, and detailed Speaker Notes explaining the points.\<newline>'' @
     ''    \<newline>'' @
     ''    Input Text:\<newline>'' @
     ''    '' @ take 30000 text @
     '' // Truncate to avoid hard limits, though Flash handles large context well.\<newline>'' @
     ''  ''"

definition generatePresentationContent ::
    "Env \<Rightarrow> string \<Rightarrow> GenerationConfig \<Rightarrow> error + PresentationData" where
  "generatePresentationContent env text config =
     (if \<not> truthy (apiKey env) then Inl MissingCredential
      else case generateContent env (buildPrompt text config) of
             Inl err \<Rightarrow> Inl err
           | Inr None \<Rightarrow> Inl NoContent
           | Inr (Some jsonText) \<Rightarrow>
               if jsonText = [] then Inl NoContent
               else (case jsonParse env jsonText of
                       Inl err \<Rightarrow> Inl err
                     | Inr result \<Rightarrow>
                         Inr \<lparr>p_title = g_title result,
                              p_subtitle = g_subtitle result,
                              p_slides = g_slides result,
                              p_template = None,
                              p_titleImage = None\<rparr>))"

section \<open>Application controller (App.tsx)\<close>

datatype Tab = TabUpload | TabText

text \<open>The \<open>useState\<close> cells of \<open>App\<close>. Every setter replaces one cell; the setters a
  handler calls in one synchronous run take effect together. The two \<open>useRef\<close> cells hold
  the file inputs, whose \<open>value\<close> the handlers clear so that the same file can be chosen
  again; they do not enter the state.\<close>

record AppState =
  status :: AppStatus
  inputText :: string
  errorMsg :: "string option"
  presentationData :: "PresentationData option"
  config :: GenerationConfig
  activeTab :: Tab

definition initialConfig :: GenerationConfig where
  "initialConfig =
     \<lparr>numSlides = 8, detailLevel = ''brief'', audience = ''academic'',
      template = ''classic'', titleImage = None\<rparr>"

definition initialState :: AppState where
  "initialState =
     \<lparr>status = IDLE, inputText = [], errorMsg = None, presentationData = None,
      config = initialConfig, activeTab = TabUpload\<rparr>"

text \<open>
  An \<open>async\<close> handler runs synchronously up to its first \<open>await\<close> and is resumed
  when the awaited promise settles; there is no cancellation. What it awaits is recorded
  as a \<open>pending\<close> value holding the values its closure captured when it was called
  (\<open>inputText\<close>, \<open>config\<close>, \<open>presentationData\<close> of that render). A handler returns
  the new state and the operation it has started, if any.
\<close>

datatype pending =
    PendingParse File
  | PendingTitleImage File GenerationConfig
  | PendingGenerate string GenerationConfig
  | PendingSlideImage nat File PresentationData
  | PendingExport PresentationData

subsection \<open>handleFileUpload\<close>

text \<open>The rest of the \<open>try\<close> and the \<open>catch\<close>, once the text has been read or an
  error thrown.\<close>

definition handleFileUpload_resume :: "File \<Rightarrow> AppState \<Rightarrow> AppState" where
  "handleFileUpload_resume file s =
     (case parseDocument file of
        Inr text \<Rightarrow> s\<lparr>inputText := text, status := IDLE, activeTab := TabText\<rparr>
      | Inl err \<Rightarrow>
          s\<lparr>errorMsg := Some (js_or (message err) ''Failed to parse file.''),
            status := ERROR\<rparr>)"

text \<open>For a PDF or a text file the handler awaits the read; for any other type the
  \<open>throw\<close> is reached before any \<open>await\<close>, in the same run.\<close>

definition handleFileUpload :: "File option \<Rightarrow> AppState \<Rightarrow> AppState \<times> pending option" where
  "handleFileUpload ev s =
     (case ev of
        None \<Rightarrow> (s, None)
      | Some file \<Rightarrow>
          (let s1 = s\<lparr>status := PARSING_PDF, errorMsg := None\<rparr>
           in if ftype file = ''application/pdf'' \<or> ftype file = ''text/plain''
              then (s1, Some (PendingParse file))
              else (handleFileUpload_resume file s1, None)))"

subsection \<open>handleTitleImageUpload, removeTitleImage\<close>

definition handleTitleImageUpload :: "File option \<Rightarrow> AppState \<Rightarrow> AppState \<times> pending option" where
  "handleTitleImageUpload ev s =
     (case ev of
        None \<Rightarrow> (s, None)
      | Some file \<Rightarrow> (s, Some (PendingTitleImage file (config s))))"

definition handleTitleImageUpload_resume :: "File \<Rightarrow> GenerationConfig \<Rightarrow> AppState \<Rightarrow> AppState" where
  "handleTitleImageUpload_resume file cfg s =
     (case fdataURL file of
        Some base64 \<Rightarrow> s\<lparr>config := cfg\<lparr>titleImage := Some base64\<rparr>\<rparr>
      | None \<Rightarrow> s\<lparr>errorMsg := Some ''Failed to process image.''\<rparr>)"

definition removeTitleImage :: "AppState \<Rightarrow> AppState" where
  "removeTitleImage s = s\<lparr>config := (config s)\<lparr>titleImage := None\<rparr>\<rparr>"

subsection \<open>handleGenerate\<close>

definition handleGenerate :: "AppState \<Rightarrow> AppState \<times> pending option" where
  "handleGenerate s =
     (if trim (inputText s) = [] then
        (s\<lparr>errorMsg := Some ''Please provide text or upload a document first.''\<rparr>, None)
      else
        (s\<lparr>status := GENERATING_CONTENT, errorMsg := None\<rparr>,
         Some (PendingGenerate (inputText s) (config s))))"

text \<open>The merge \<open>{...data, template: config.template, titleImage: config.titleImage}\<close>.\<close>

definition mergeVisuals :: "PresentationData \<Rightarrow> GenerationConfig \<Rightarrow> PresentationData" where
  "mergeVisuals data cfg =
     data\<lparr>p_template := Some (template cfg), p_titleImage := titleImage cfg\<rparr>"

definition handleGenerate_resume ::
    "Env \<Rightarrow> string \<Rightarrow> GenerationConfig \<Rightarrow> AppState \<Rightarrow> AppState" where
  "handleGenerate_resume env text cfg s =
     (case generatePresentationContent env text cfg of
        Inr data \<Rightarrow>
          s\<lparr>presentationData := Some (mergeVisuals data cfg), status := SUCCESS\<rparr>
      | Inl err \<Rightarrow>
          s\<lparr>errorMsg := Some (js_or (message err) ''AI Generation failed. Please try again.''),
            status := ERROR\<rparr>)"

subsection \<open>handleUpdateSlideImage\<close>

text \<open>
  \<open>newSlides[index] = {...newSlides[index], image: v}\<close> on a copy of the slides. Past the
  end JavaScript extends the array: the positions in between become holes and the new
  element has no property but \<open>image\<close>; the model writes a hole and a missing property
  as empty values. The interface passes only indices of the slides it renders.
\<close>

definition emptySlide :: SlideData where
  "emptySlide = \<lparr>s_title = [], s_bulletPoints = [], s_speakerNotes = [], s_image = None\<rparr>"

definition setSlideImage :: "PresentationData \<Rightarrow> nat \<Rightarrow> string option \<Rightarrow> PresentationData" where
  "setSlideImage p index v =
     (let slides = p_slides p;
          newSlides =
            (if index < length slides then slides[index := (slides ! index)\<lparr>s_image := v\<rparr>]
             else slides @ replicate (index - length slides) emptySlide
                         @ [emptySlide\<lparr>s_image := v\<rparr>])
      in p\<lparr>p_slides := newSlides\<rparr>)"

definition handleUpdateSlideImage ::
    "nat \<Rightarrow> File option \<Rightarrow> AppState \<Rightarrow> AppState \<times> pending option" where
  "handleUpdateSlideImage index file s =
     (case presentationData s of
        None \<Rightarrow> (s, None)
      | Some p \<Rightarrow>
          (case file of
             Some f \<Rightarrow> (s, Some (PendingSlideImage index f p))
           | None \<Rightarrow> (s\<lparr>presentationData := Some (setSlideImage p index None)\<rparr>, None)))"

definition handleUpdateSlideImage_resume ::
    "nat \<Rightarrow> File \<Rightarrow> PresentationData \<Rightarrow> AppState \<Rightarrow> AppState" where
  "handleUpdateSlideImage_resume index f p s =
     (case fdataURL f of
        Some base64 \<Rightarrow> s\<lparr>presentationData := Some (setSlideImage p index (Some base64))\<rparr>
      | None \<Rightarrow> s)"

subsection \<open>handleDownload\<close>

definition handleDownload :: "AppState \<Rightarrow> AppState \<times> pending option" where
  "handleDownload s =
     (case presentationData s of
        None \<Rightarrow> (s, None)
      | Some p \<Rightarrow> (s\<lparr>status := GENERATING_PPT\<rparr>, Some (PendingExport p)))"

definition handleDownload_resume :: "Env \<Rightarrow> PresentationData \<Rightarrow> AppState \<Rightarrow> AppState" where
  "handleDownload_resume env p s =
     (case generatePptFile env p of
        None \<Rightarrow> s\<lparr>status := SUCCESS\<rparr>
      | Some err \<Rightarrow> s\<lparr>errorMsg := Some ''Failed to generate PPT file.'', status := ERROR\<rparr>)"

subsection \<open>resetApp\<close>

definition resetApp :: "AppState \<Rightarrow> AppState" where
  "resetApp s =
     s\<lparr>presentationData := None,
       inputText := [],
       status := IDLE,
       activeTab := TabUpload,
       errorMsg := None,
       config := (config s)\<lparr>titleImage := None\<rparr>\<rparr>"

section \<open>The view (JSX of App.tsx and of the SlidePreview component)\<close>

subsection \<open>Template styling\<close>





definition getTemplatePreviewClass :: "GenerationConfig \<Rightarrow> string \<Rightarrow> string" where
  "getTemplatePreviewClass cfg ident =
     (let base = ''w-full h-12 rounded-lg border-2 cursor-pointer transition-all flex items-center justify-center text-xs font-bold'';
          selected = (if template cfg = ident then ''ring-2 ring-offset-2 ring-blue-500 scale-105''
                      else ''hover:scale-105'');
          colors = (if ident = ''modern'' then ''bg-slate-100 border-slate-300 text-slate-800''
                    else if ident = ''dark'' then ''bg-slate-900 border-slate-700 text-white''
                    else if ident = ''corporate'' then ''bg-white border-emerald-500 text-emerald-800''
                    else ''bg-blue-50 border-blue-200 text-blue-700'')
      in base @ '' '' @ selected @ '' '' @ colors)"

definition knownTemplates :: "string list" where
  "knownTemplates = [''classic'', ''modern'', ''dark'', ''corporate'']"

subsection \<open>Events of the interface\<close>

text \<open>
  The elements of the page that carry a handler. \<open>ClickLogo\<close> is the header logo and
  \<open>ClickCreateNew\<close> the button of the results section (both \<open>resetApp\<close>);
  \<open>ChooseFile\<close>, \<open>ChooseTitleImage\<close> and \<open>ChooseSlideImage\<close> are the \<open>change\<close>
  events of the three file inputs, with \<open>files?.[0]\<close>; \<open>ClickTemplate\<close> is one of the
  four template tiles; the three \<open>Select\<close> events are the drop-downs with their options.
\<close>

datatype ui_event =
    ClickLogo
  | ClickTab Tab
  | ChooseFile "File option"
  | TypeText string
  | ClickTemplate string
  | ChooseTitleImage "File option"
  | ClickRemoveTitleImage
  | SelectAudience string
  | SelectNumSlides int
  | SelectDetailLevel string
  | ClickGenerate
  | ClickCreateNew
  | ClickDownload
  | ChooseSlideImage nat "File option"
  | ClickRemoveSlideImage nat

text \<open>The input section is rendered while there is no presentation
  (\<open>!presentationData\<close>), the options below it once \<open>inputText.length > 0\<close>.\<close>

definition inputSection :: "AppState \<Rightarrow> bool" where
  "inputSection s = (presentationData s = None)"

definition configSection :: "AppState \<Rightarrow> bool" where
  "configSection s = (inputSection s \<and> length (inputText s) > 0)"

text \<open>Whether the element of an event is rendered and not disabled: the conditional
  rendering of the JSX, the \<open>disabled\<close> attributes of the two buttons, and
  \<open>pointer-events-none\<close> on the label of the document input while a document is read.\<close>

fun enabled :: "ui_event \<Rightarrow> AppState \<Rightarrow> bool" where
  "enabled ClickLogo s = True"
| "enabled (ClickTab t) s = inputSection s"
| "enabled (ChooseFile f) s =
     (inputSection s \<and> activeTab s = TabUpload \<and> status s \<noteq> PARSING_PDF)"
| "enabled (TypeText v) s = (inputSection s \<and> activeTab s = TabText)"
| "enabled (ClickTemplate ident) s = (configSection s \<and> ident \<in> set knownTemplates)"
| "enabled (ChooseTitleImage f) s = (configSection s \<and> \<not> truthy (titleImage (config s)))"
| "enabled ClickRemoveTitleImage s = (configSection s \<and> truthy (titleImage (config s)))"
| "enabled (SelectAudience a) s =
     (configSection s \<and> a \<in> set [''academic'', ''general'', ''executive''])"
| "enabled (SelectNumSlides n) s = (configSection s \<and> n \<in> set [5, 8, 12])"
| "enabled (SelectDetailLevel d) s = (configSection s \<and> d \<in> set [''brief'', ''detailed''])"
| "enabled ClickGenerate s = (configSection s \<and> status s \<noteq> GENERATING_CONTENT)"
| "enabled ClickCreateNew s = (\<not> inputSection s)"
| "enabled ClickDownload s = (\<not> inputSection s \<and> status s \<noteq> GENERATING_PPT)"
| "enabled (ChooseSlideImage i f) s =
     (case presentationData s of
        None \<Rightarrow> False
      | Some p \<Rightarrow> i < length (p_slides p))"
| "enabled (ClickRemoveSlideImage i) s =
     (case presentationData s of
        None \<Rightarrow> False
      | Some p \<Rightarrow> i < length (p_slides p) \<and> truthy (s_image (p_slides p ! i)))"

text \<open>The handler behind each element.\<close>

fun handler :: "ui_event \<Rightarrow> AppState \<Rightarrow> AppState \<times> pending option" where
  "handler ClickLogo s = (resetApp s, None)"
| "handler (ClickTab t) s = (s\<lparr>activeTab := t\<rparr>, None)"
| "handler (ChooseFile f) s = handleFileUpload f s"
| "handler (TypeText v) s = (s\<lparr>inputText := v\<rparr>, None)"
| "handler (ClickTemplate ident) s = (s\<lparr>config := (config s)\<lparr>template := ident\<rparr>\<rparr>, None)"
| "handler (ChooseTitleImage f) s = handleTitleImageUpload f s"
| "handler ClickRemoveTitleImage s = (removeTitleImage s, None)"
| "handler (SelectAudience a) s = (s\<lparr>config := (config s)\<lparr>audience := a\<rparr>\<rparr>, None)"
| "handler (SelectNumSlides n) s = (s\<lparr>config := (config s)\<lparr>numSlides := n\<rparr>\<rparr>, None)"
| "handler (SelectDetailLevel d) s = (s\<lparr>config := (config s)\<lparr>detailLevel := d\<rparr>\<rparr>, None)"
| "handler ClickGenerate s = handleGenerate s"
| "handler ClickCreateNew s = (resetApp s, None)"
| "handler ClickDownload s = handleDownload s"
| "handler (ChooseSlideImage i f) s =
     (case f of None \<Rightarrow> (s, None) | Some file \<Rightarrow> handleUpdateSlideImage i (Some file) s)"
| "handler (ClickRemoveSlideImage i) s = handleUpdateSlideImage i None s"

text \<open>The continuation of a handler when what it awaits has settled.\<close>

fun resume :: "Env \<Rightarrow> pending \<Rightarrow> AppState \<Rightarrow> AppState" where
  "resume env (PendingParse file) s = handleFileUpload_resume file s"
| "resume env (PendingTitleImage file cfg) s = handleTitleImageUpload_resume file cfg s"
| "resume env (PendingGenerate text cfg) s = handleGenerate_resume env text cfg s"
| "resume env (PendingSlideImage i file p) s = handleUpdateSlideImage_resume i file p s"
| "resume env (PendingExport p) s = handleDownload_resume env p s"

subsection \<open>The running application\<close>

text \<open>
  The state of the component together with the operations in flight. An event of the
  interface runs its handler when its element is enabled and does nothing otherwise;
  \<open>Settle k env\<close> lets the \<open>k\<close>-th operation in flight settle, the outside world
  answering as \<open>env\<close>.
\<close>

record World =
  app :: AppState
  inflight :: "pending list"

datatype event = UI ui_event | Settle nat Env

fun started :: "pending option \<Rightarrow> pending list" where
  "started None = []"
| "started (Some q) = [q]"

fun step :: "event \<Rightarrow> World \<Rightarrow> World" where
  "step (UI e) w =
     (if enabled e (app w)
      then (case handler e (app w) of
              (s', q) \<Rightarrow> \<lparr>app = s', inflight = inflight w @ started q\<rparr>)
      else w)"
| "step (Settle k env) w =
     (if k < length (inflight w)
      then \<lparr>app = resume env (inflight w ! k) (app w),
            inflight = take k (inflight w) @ drop (Suc k) (inflight w)\<rparr>
      else w)"

definition run :: "event list \<Rightarrow> World \<Rightarrow> World" where
  "run evs w = fold step evs w"

definition initialWorld :: World where
  "initialWorld = \<lparr>app = initialState, inflight = []\<rparr>"

fun isGenerate :: "pending \<Rightarrow> bool" where
  "isGenerate (PendingGenerate text cfg) = True"
| "isGenerate q = False"

definition generationsInFlight :: "World \<Rightarrow> nat" where
  "generationsInFlight w = length (filter isGenerate (inflight w))"

subsection \<open>Templates held by a state\<close>






section \<open>Sample inputs\<close>

text \<open>Concrete values at which the theorems below are instantiated.\<close>

definition sampleEnv :: Env where
  "sampleEnv =
     \<lparr>apiKey = Some ''key'',
      generateContent = (\<lambda>prompt. Inr (Some ''{}'')),
      jsonParse = (\<lambda>jsonText. Inr \<lparr>g_title = ''T'', g_subtitle = None, g_slides = []\<rparr>),
      generatePptFile = (\<lambda>p. Some (Error ''write failed''))\<rparr>"

definition sampleSlide :: SlideData where
  "sampleSlide =
     \<lparr>s_title = ''Intro'', s_bulletPoints = [''a''], s_speakerNotes = ''n'', s_image = None\<rparr>"

definition samplePresentation :: PresentationData where
  "samplePresentation =
     \<lparr>p_title = ''T'', p_subtitle = None, p_slides = [sampleSlide],
      p_template = Some ''classic'', p_titleImage = None\<rparr>"

definition sampleTextFile :: "string \<Rightarrow> File" where
  "sampleTextFile t = \<lparr>ftype = ''text/plain'', ftext = Inr t, fpdf = None, fdataURL = None\<rparr>"

definition sampleImageFile :: File where
  "sampleImageFile =
     \<lparr>ftype = ''image/png'', ftext = Inl (Error []), fpdf = None,
      fdataURL = Some ''data:image/png;base64,AA==''\<rparr>"

text \<open>A PDF of 16 pages: fifteen pages with the items \<open>a\<close> and \<open>b\<close>, then one page
  with the item \<open>z\<close>.\<close>

definition samplePdfFile :: File where
  "samplePdfFile =
     \<lparr>ftype = ''application/pdf'', ftext = Inl (Error []),
      fpdf = Some (replicate 15 (Some [''a'', ''b'']) @ [Some [''z'']]),
      fdataURL = None\<rparr>"

text \<open>Type a text and generate; reset from the header logo while the request is in
  flight; type a text again and generate again.\<close>

definition duplicateTrace :: "event list" where
  "duplicateTrace =
     [UI (ClickTab TabText), UI (TypeText ''abc''), UI ClickGenerate,
      UI ClickLogo,
      UI (ClickTab TabText), UI (TypeText ''xyz''), UI ClickGenerate]"

text \<open>A PDF of 16 pages, each with the single item \<open>a\<close>.\<close>

definition tersePdfFile :: File where
  "tersePdfFile =
     \<lparr>ftype = ''application/pdf'', ftext = Inl (Error []),
      fpdf = Some (replicate 16 (Some [''a''])),
      fdataURL = None\<rparr>"

text \<open>Type a text, choose the tile \<open>modern\<close> and generate; choose the tile \<open>dark\<close>
  while the request is in flight; then the request settles with success.\<close>

definition staleConfigTrace :: "event list" where
  "staleConfigTrace =
     [UI (ClickTab TabText), UI (TypeText ''abc''), UI (ClickTemplate ''modern''),
      UI ClickGenerate,
      UI (ClickTemplate ''dark''),
      Settle 0 sampleEnv]"


section \<open>Auxiliary facts\<close>

lemma dropWhile_all_iff:
  "(\<forall>x \<in> set (dropWhile P xs). P x) \<longleftrightarrow> (\<forall>x \<in> set xs. P x)"
proof
  assume all: "\<forall>x \<in> set (dropWhile P xs). P x"
  have "dropWhile P xs = []"
  proof (rule ccontr)
    assume ne: "dropWhile P xs \<noteq> []"
    then have "\<not> P (hd (dropWhile P xs))" by (rule hd_dropWhile)
    moreover from ne have "hd (dropWhile P xs) \<in> set (dropWhile P xs)" by simp
    ultimately show False using all by blast
  qed
  then show "\<forall>x \<in> set xs. P x" by (simp add: dropWhile_eq_Nil_conv)
next
  assume "\<forall>x \<in> set xs. P x"
  then show "\<forall>x \<in> set (dropWhile P xs). P x" by (auto dest: set_dropWhileD)
qed

text \<open>\<open>!inputText.trim()\<close> holds exactly for a text that is empty or all white space.\<close>

lemma trim_eq_Nil_iff: "trim s = [] \<longleftrightarrow> (\<forall>c \<in> set s. isWhiteSpace c)"
  by (simp add: trim_def dropWhile_eq_Nil_conv dropWhile_all_iff)

lemma setSlideImage_in_range:
  "i < length (p_slides p) \<Longrightarrow>
   setSlideImage p i v = p\<lparr>p_slides := (p_slides p)[i := (p_slides p ! i)\<lparr>s_image := v\<rparr>]\<rparr>"
  by (simp add: setSlideImage_def Let_def)

lemma setSlideImage_image:
  "i < length (p_slides p) \<Longrightarrow> s_image (p_slides (setSlideImage p i v) ! i) = v"
  by (simp add: setSlideImage_in_range)

lemma setSlideImage_length:
  "i < length (p_slides p) \<Longrightarrow> length (p_slides (setSlideImage p i v)) = length (p_slides p)"
  by (simp add: setSlideImage_in_range)

lemma setSlideImage_twice:
  assumes "i < length (p_slides p)"
  shows "setSlideImage (setSlideImage p i v) i v' = setSlideImage p i v'"
proof -
  from assms have "i < length (p_slides (setSlideImage p i v))"
    by (simp add: setSlideImage_length)
  then have "setSlideImage (setSlideImage p i v) i v' =
      (setSlideImage p i v)\<lparr>p_slides := (p_slides (setSlideImage p i v))
         [i := (p_slides (setSlideImage p i v) ! i)\<lparr>s_image := v'\<rparr>]\<rparr>"
    by (rule setSlideImage_in_range)
  with assms show ?thesis by (simp add: setSlideImage_in_range)
qed

lemma setSlideImage_same:
  assumes "i < length (p_slides p)" and "s_image (p_slides p ! i) = v"
  shows "setSlideImage p i v = p"
proof -
  from assms(2) have "(p_slides p ! i)\<lparr>s_image := v\<rparr> = p_slides p ! i"
    by (cases "p_slides p ! i") auto
  then have "(p_slides p)[i := (p_slides p ! i)\<lparr>s_image := v\<rparr>] = p_slides p"
    by (simp add: list_update_id)
  with assms(1) show ?thesis by (simp add: setSlideImage_in_range)
qed


lemma extractPages_pages:
  "take maxPages pdf = map Some pages \<Longrightarrow> maxPages \<le> length pdf \<Longrightarrow> 1 \<le> i \<Longrightarrow>
   extractPages pdf maxPages i acc =
     Some (acc @ concat (map (\<lambda>items. join '' '' items @ ''\<newline>\<newline>'') (drop (i - 1) pages)))"
proof (induction pdf maxPages i acc rule: extractPages.induct)
  case (1 pdf maxPages i fullText)
  have "length (take maxPages pdf) = length (map Some pages)"
    using "1.prems"(1) by (rule arg_cong)
  with "1.prems"(2) have len: "length pages = maxPages" by simp
  show ?case
  proof (cases "i \<le> maxPages")
    case False
    with len have "drop (i - 1) pages = []" by simp
    moreover have "extractPages pdf maxPages i fullText = Some fullText"
      using False by (subst extractPages.simps) simp
    ultimately show ?thesis by simp
  next
    case True
    with "1.prems" len have lt: "i - 1 < length pages" by simp
    have "getPage pdf i = pdf ! (i - 1)"
      using True "1.prems"(2,3) by (simp add: getPage_def)
    also have "\<dots> = take maxPages pdf ! (i - 1)"
      using lt len by simp
    also have "\<dots> = map Some pages ! (i - 1)"
      by (simp only: "1.prems"(1))
    also have "\<dots> = Some (pages ! (i - 1))"
      using lt by simp
    finally have gp: "getPage pdf i = Some (pages ! (i - 1))" .
    have "Suc (i - 1) = i" using "1.prems"(3) by simp
    with Cons_nth_drop_Suc [OF lt]
    have dr: "drop (i - 1) pages = pages ! (i - 1) # drop i pages" by simp
    have ih: "extractPages pdf maxPages (i + 1)
            (fullText @ join '' '' (pages ! (i - 1)) @ ''\<newline>\<newline>'') =
          Some ((fullText @ join '' '' (pages ! (i - 1)) @ ''\<newline>\<newline>'') @
            concat (map (\<lambda>items. join '' '' items @ ''\<newline>\<newline>'') (drop (i + 1 - 1) pages)))"
      by (rule "1.IH" [OF True gp "1.prems"(1) "1.prems"(2)]) simp
    have "extractPages pdf maxPages i fullText =
          extractPages pdf maxPages (i + 1)
            (fullText @ join '' '' (pages ! (i - 1)) @ ''\<newline>\<newline>'')"
      using True gp by (subst extractPages.simps) simp
    also note ih
    finally show ?thesis unfolding dr by simp
  qed
qed

lemma extractTextFromPdf_pages:
  assumes "fpdf file = Some pdf" and "15 \<le> length pdf" and "take 15 pdf = map Some pages"
  shows "extractTextFromPdf file =
           Inr (concat (map (\<lambda>items. join '' '' items @ ''\<newline>\<newline>'') pages))"
proof -
  have "extractPages pdf 15 1 [] =
          Some ([] @ concat (map (\<lambda>items. join '' '' items @ ''\<newline>\<newline>'') (drop (1 - 1) pages)))"
    using assms(3) assms(2) by (rule extractPages_pages) simp
  then have "extractPages pdf 15 1 [] =
          Some (concat (map (\<lambda>items. join '' '' items @ ''\<newline>\<newline>'') pages))"
    by simp
  moreover have "min (length pdf) 15 = 15" using assms(2) by simp
  ultimately show ?thesis
    using assms(1) by (simp add: extractTextFromPdf_def Let_def)
qed

text \<open>The prompt is built from the text, the audience, the detail level and the number
  of slides; the two visual fields of the configuration are never read.\<close>

lemma generator_ignores_visuals:
  "generatePresentationContent env text (cfg\<lparr>template := t, titleImage := ti\<rparr>) =
   generatePresentationContent env text cfg"
  by (simp add: generatePresentationContent_def buildPrompt_def)

lemma generator_output_visuals:
  "generatePresentationContent env text cfg = Inr data \<Longrightarrow>
   p_template data = None \<and> p_titleImage data = None"
  by (auto simp: generatePresentationContent_def split: if_splits sum.splits option.splits)

text \<open>\<open>handleGenerate\<close> itself does not look at \<open>status\<close>: with a text that is not
  blank it starts a request in any state. The guard is the \<open>disabled\<close> attribute of the
  button (\<open>enabled ClickGenerate\<close>).\<close>

lemma handleGenerate_starts_request:
  "trim (inputText s) \<noteq> [] \<Longrightarrow>
   snd (handleGenerate s) = Some (PendingGenerate (inputText s) (config s))"
  by (simp add: handleGenerate_def)

subsection \<open>A generation is in flight whenever the status says so\<close>

text \<open>In every state the application can reach, the status \<open>GENERATING_CONTENT\<close> implies
  that a generation request is in flight: the status is set together with the start of
  a request, and the continuation of a generation request leaves the status.\<close>

lemma handler_generating:
  assumes "status (app w) = GENERATING_CONTENT \<longrightarrow> (\<exists>q \<in> set (inflight w). isGenerate q)"
    and "enabled e (app w)" and "handler e (app w) = (s', q')"
    and "status s' = GENERATING_CONTENT"
  shows "\<exists>q \<in> set (inflight w @ started q'). isGenerate q"
proof (cases e)
  case ClickGenerate
  with assms show ?thesis
    by (auto simp: handleGenerate_def split: if_splits)
next
  case (ChooseFile f)
  with assms show ?thesis
    by (auto simp: handleFileUpload_def handleFileUpload_resume_def Let_def
        split: option.splits if_splits sum.splits)
next
  case ClickDownload
  with assms show ?thesis
    by (auto simp: handleDownload_def split: option.splits)
next
  case (ChooseTitleImage f)
  with assms show ?thesis
    by (auto simp: handleTitleImageUpload_def split: option.splits)
next
  case (ChooseSlideImage i f)
  with assms show ?thesis
    by (auto simp: handleUpdateSlideImage_def split: option.splits)
next
  case (ClickRemoveSlideImage i)
  with assms show ?thesis
    by (auto simp: handleUpdateSlideImage_def split: option.splits)
qed (use assms in \<open>auto simp: resetApp_def removeTitleImage_def\<close>)

lemma resume_generating:
  assumes "status (resume env q s) = GENERATING_CONTENT"
  shows "\<not> isGenerate q \<and> status s = GENERATING_CONTENT"
proof (cases q)
  case (PendingParse f)
  with assms show ?thesis
    by (auto simp: handleFileUpload_resume_def split: sum.splits)
next
  case (PendingTitleImage f cfg)
  with assms show ?thesis
    by (auto simp: handleTitleImageUpload_resume_def split: option.splits)
next
  case (PendingGenerate t cfg)
  with assms show ?thesis
    by (auto simp: handleGenerate_resume_def split: sum.splits)
next
  case (PendingSlideImage i f p)
  with assms show ?thesis
    by (auto simp: handleUpdateSlideImage_resume_def split: option.splits)
next
  case (PendingExport p)
  with assms show ?thesis
    by (auto simp: handleDownload_resume_def split: option.splits)
qed

lemma remove_nth_keeps:
  assumes "k < length xs" and "x \<in> set xs" and "P x" and "\<not> P (xs ! k)"
  shows "\<exists>y \<in> set (take k xs @ drop (Suc k) xs). P y"
proof -
  from assms(1) have "xs = take k xs @ xs ! k # drop (Suc k) xs"
    by (rule id_take_nth_drop)
  then have "set xs = set (take k xs @ drop (Suc k) xs) \<union> {xs ! k}"
    by (metis Un_insert_right set_append list.simps(15) sup_bot.right_neutral)
  with assms(2,3,4) show ?thesis by blast
qed

lemma step_generating:
  assumes "status (app w) = GENERATING_CONTENT \<longrightarrow> (\<exists>q \<in> set (inflight w). isGenerate q)"
  shows "status (app (step e w)) = GENERATING_CONTENT \<longrightarrow>
         (\<exists>q \<in> set (inflight (step e w)). isGenerate q)"
proof (cases e)
  case (UI u)
  show ?thesis
  proof (cases "enabled u (app w)")
    case False
    with UI assms show ?thesis by simp
  next
    case True
    obtain s' q' where h: "handler u (app w) = (s', q')" by (cases "handler u (app w)")
    with UI True have st: "step e w = \<lparr>app = s', inflight = inflight w @ started q'\<rparr>" by simp
    show ?thesis
      using handler_generating [OF assms True h] st by simp
  qed
next
  case (Settle k env)
  show ?thesis
  proof (cases "k < length (inflight w)")
    case False
    with Settle assms show ?thesis by simp
  next
    case True
    with Settle have st: "step e w =
        \<lparr>app = resume env (inflight w ! k) (app w),
         inflight = take k (inflight w) @ drop (Suc k) (inflight w)\<rparr>" by simp
    show ?thesis
    proof
      assume "status (app (step e w)) = GENERATING_CONTENT"
      with st have "status (resume env (inflight w ! k) (app w)) = GENERATING_CONTENT" by simp
      then have ng: "\<not> isGenerate (inflight w ! k)" and "status (app w) = GENERATING_CONTENT"
        using resume_generating by blast+
      with assms obtain q where "q \<in> set (inflight w)" and "isGenerate q" by blast
      with True ng have "\<exists>y \<in> set (take k (inflight w) @ drop (Suc k) (inflight w)). isGenerate y"
        by (intro remove_nth_keeps)
      with st show "\<exists>q \<in> set (inflight (step e w)). isGenerate q" by simp
    qed
  qed
qed

lemma run_generating:
  "(status (app w) = GENERATING_CONTENT \<longrightarrow> (\<exists>q \<in> set (inflight w). isGenerate q)) \<Longrightarrow>
   status (app (run evs w)) = GENERATING_CONTENT \<longrightarrow>
   (\<exists>q \<in> set (inflight (run evs w)). isGenerate q)"
proof (induction evs arbitrary: w)
  case Nil
  then show ?case by (simp add: run_def)
next
  case (Cons e evs)
  have "run (e # evs) w = run evs (step e w)" by (simp add: run_def)
  with Cons.IH [OF step_generating [OF Cons.prems]] show ?case by simp
qed

lemma reachable_generating:
  assumes "status (app (run evs initialWorld)) = GENERATING_CONTENT"
  shows "1 \<le> generationsInFlight (run evs initialWorld)"
proof -
  have "status (app initialWorld) = GENERATING_CONTENT \<longrightarrow>
        (\<exists>q \<in> set (inflight initialWorld). isGenerate q)"
    by (simp add: initialWorld_def initialState_def)
  from run_generating [OF this] assms
  obtain q where "q \<in> set (inflight (run evs initialWorld))" and "isGenerate q" by blast
  then have "filter isGenerate (inflight (run evs initialWorld)) \<noteq> []"
    by (auto simp: filter_empty_conv)
  then show ?thesis
    by (simp add: generationsInFlight_def Suc_le_eq)
qed

subsection \<open>The template is a known identifier in every reachable state\<close>










subsection \<open>Terminated and separated concatenation\<close>

text \<open>Appending the separator after every element gives the \<open>join\<close> of the elements
  followed by one more separator.\<close>

lemma join_Cons: "ys \<noteq> [] \<Longrightarrow> join sep (y # ys) = y @ sep @ join sep ys"
  by (cases ys) simp_all

lemma concat_terminated:
  "xs \<noteq> [] \<Longrightarrow> concat (map (\<lambda>x. f x @ sep) xs) = join sep (map f xs) @ sep"
proof (induction xs)
  case Nil
  then show ?case by simp
next
  case (Cons x xs)
  show ?case
  proof (cases "xs = []")
    case True
    then show ?thesis by simp
  next
    case False
    with Cons.IH show ?thesis by (simp add: join_Cons)
  qed
qed

lemmas world_defs = run_def initialWorld_def initialState_def initialConfig_def
  inputSection_def configSection_def handleGenerate_def resetApp_def trim_def isWhiteSpace_def
  generationsInFlight_def

lemmas generate_defs = handleGenerate_resume_def generatePresentationContent_def sampleEnv_def
  mergeVisuals_def knownTemplates_def


section \<open>Claims\<close>

text \<open>
  C1, as stated, fails: the merge does not use the current configuration. The template
  tiles stay active while a request is in flight; in \<open>staleConfigTrace\<close> the tile
  \<open>dark\<close> is chosen after the click on the button, and when the request settles with
  success the configuration holds \<open>dark\<close> and the stored presentation \<open>modern\<close>.
\<close>

theorem stale_config_merged:
  "status (app (run staleConfigTrace initialWorld)) = SUCCESS \<and>
   template (config (app (run staleConfigTrace initialWorld))) = ''dark'' \<and>
   map_option p_template (presentationData (app (run staleConfigTrace initialWorld))) =
     Some (Some ''modern'')"
  by (simp add: staleConfigTrace_def world_defs generate_defs)

text \<open>
  C1, amended. A successful generation stores the generator's output (title, subtitle,
  slides) merged with the template and the title image of the configuration as it was
  when generate was invoked: \<open>handleGenerate\<close> captures the text and the configuration
  of the state in which it is called, and when the request settles, in whatever state
  \<open>s'\<close> the application then is, \<open>template\<close> and \<open>titleImage\<close> are taken from that
  captured configuration. They are those of the current configuration when the two
  fields were not changed in between. The generator's own result has both fields unset,
  and its result is the same whatever the two fields of the configuration hold.
\<close>

theorem generate_success_merges_config:
  assumes "trim (inputText s) \<noteq> []"
    and "generatePresentationContent env (inputText s) (config s) = Inr data"
  shows "handleGenerate s =
           (s\<lparr>status := GENERATING_CONTENT, errorMsg := None\<rparr>,
            Some (PendingGenerate (inputText s) (config s))) \<and>
         p_template data = None \<and> p_titleImage data = None \<and>
         handleGenerate_resume env (inputText s) (config s) s' =
           s'\<lparr>presentationData :=
                 Some \<lparr>p_title = p_title data, p_subtitle = p_subtitle data,
                       p_slides = p_slides data,
                       p_template = Some (template (config s)),
                       p_titleImage = titleImage (config s)\<rparr>,
              status := SUCCESS\<rparr> \<and>
         (template (config s') = template (config s) \<and>
          titleImage (config s') = titleImage (config s) \<longrightarrow>
            presentationData (handleGenerate_resume env (inputText s) (config s) s') =
              Some \<lparr>p_title = p_title data, p_subtitle = p_subtitle data,
                    p_slides = p_slides data,
                    p_template = Some (template (config s')),
                    p_titleImage = titleImage (config s')\<rparr>) \<and>
         generatePresentationContent env (inputText s) ((config s)\<lparr>template := t, titleImage := ti\<rparr>)
           = Inr data"
proof -
  from assms(2) have v: "p_template data = None \<and> p_titleImage data = None"
    by (rule generator_output_visuals)
  have m: "mergeVisuals data (config s) =
      \<lparr>p_title = p_title data, p_subtitle = p_subtitle data, p_slides = p_slides data,
       p_template = Some (template (config s)), p_titleImage = titleImage (config s)\<rparr>"
    by (cases data) (simp add: mergeVisuals_def)
  show ?thesis
    using assms v m
    by (simp add: handleGenerate_def handleGenerate_resume_def generator_ignores_visuals)
qed

theorem generate_success_merges_config_witness:
  "trim ''abc'' \<noteq> [] \<and>
   generatePresentationContent sampleEnv ''abc'' (initialConfig\<lparr>template := ''modern''\<rparr>) =
     Inr \<lparr>p_title = ''T'', p_subtitle = None, p_slides = [], p_template = None,
          p_titleImage = None\<rparr> \<and>
   handleGenerate_resume sampleEnv ''abc'' (initialConfig\<lparr>template := ''modern''\<rparr>)
       (initialState\<lparr>config := initialConfig\<lparr>template := ''modern''\<rparr>\<rparr>) =
     initialState\<lparr>config := initialConfig\<lparr>template := ''modern''\<rparr>,
       presentationData :=
         Some \<lparr>p_title = ''T'', p_subtitle = None, p_slides = [], p_template = Some ''modern'',
               p_titleImage = None\<rparr>,
       status := SUCCESS\<rparr>"
proof -
  have h1: "trim ''abc'' \<noteq> []"
    by (simp add: trim_def isWhiteSpace_def)
  have h2: "generatePresentationContent sampleEnv ''abc'' (initialConfig\<lparr>template := ''modern''\<rparr>) =
     Inr \<lparr>p_title = ''T'', p_subtitle = None, p_slides = [], p_template = None,
          p_titleImage = None\<rparr>"
    by (simp add: generatePresentationContent_def sampleEnv_def)
  show ?thesis
    using h1 h2
      generate_success_merges_config
        [of "initialState\<lparr>inputText := ''abc'', config := initialConfig\<lparr>template := ''modern''\<rparr>\<rparr>"
            sampleEnv _ "initialState\<lparr>config := initialConfig\<lparr>template := ''modern''\<rparr>\<rparr>"]
    by (simp add: initialConfig_def)
qed



text \<open>
  C3, as stated, fails: a second generation request can be issued while one is in
  flight. The gate is the \<open>status\<close> cell, not the request: after the first five events of
  \<open>duplicateTrace\<close> and the typing of a new text, one request is in flight and the status is
  \<open>IDLE\<close> again (reset does not cancel the request), so that the click on the button starts
  another one.
\<close>

theorem second_generation_in_flight:
  "generationsInFlight (run (take 6 duplicateTrace) initialWorld) = 1 \<and>
   status (app (run (take 6 duplicateTrace) initialWorld)) = IDLE \<and>
   generationsInFlight (run duplicateTrace initialWorld) = 2"
  by (simp add: duplicateTrace_def world_defs)

text \<open>
  C3, amended. In every state whose status is \<open>GENERATING_CONTENT\<close>, a click on the
  generate button does nothing: the button is disabled, the state is unchanged and no
  request is started. In a state the application can reach, that status implies that a
  generation request is in flight. (The converse does not hold, as the trace above
  shows.)
\<close>

theorem click_generate_while_generating:
  assumes "status (app w) = GENERATING_CONTENT"
  shows "step (UI ClickGenerate) w = w \<and>
         generationsInFlight (step (UI ClickGenerate) w) = generationsInFlight w \<and>
         (w = run evs initialWorld \<longrightarrow> 1 \<le> generationsInFlight w)"
  using assms reachable_generating [of evs] by auto

theorem click_generate_while_generating_witness:
  "status (app (run (take 3 duplicateTrace) initialWorld)) = GENERATING_CONTENT \<and>
   generationsInFlight (run (take 3 duplicateTrace) initialWorld) = 1 \<and>
   step (UI ClickGenerate) (run (take 3 duplicateTrace) initialWorld) =
     run (take 3 duplicateTrace) initialWorld"
proof -
  have h: "status (app (run (take 3 duplicateTrace) initialWorld)) = GENERATING_CONTENT"
    by (simp add: duplicateTrace_def world_defs)
  have g: "generationsInFlight (run (take 3 duplicateTrace) initialWorld) = 1"
    by (simp add: duplicateTrace_def world_defs)
  from h g click_generate_while_generating [OF h, where evs = "take 3 duplicateTrace"]
  show ?thesis by simp
qed

text \<open>
  C4. From every state, \<open>resetApp\<close> yields status \<open>IDLE\<close>, no presentation, an empty
  input text and no error, and of the configuration it clears \<open>titleImage\<close> only:
  template, audience, detail level and number of slides are as before.
\<close>

theorem resetApp_spec:
  "status (resetApp s) = IDLE \<and> presentationData (resetApp s) = None \<and>
   inputText (resetApp s) = [] \<and> errorMsg (resetApp s) = None \<and>
   config (resetApp s) = (config s)\<lparr>titleImage := None\<rparr> \<and>
   titleImage (config (resetApp s)) = None \<and>
   template (config (resetApp s)) = template (config s) \<and>
   audience (config (resetApp s)) = audience (config s) \<and>
   detailLevel (config (resetApp s)) = detailLevel (config s) \<and>
   numSlides (config (resetApp s)) = numSlides (config s)"
  by (simp add: resetApp_def)

text \<open>
  C5, as stated, fails on two counts. The blank line is appended after every page, the
  last one too, so the text is not the pages joined by a separator between them; and
  the text of a PDF of more than 15 pages can be shorter than 50 characters, in which
  case the upload fails. For 16 pages holding the letter \<open>a\<close> each, the extraction gives
  45 characters, not the 43 of the joined pages, and the upload ends in
  \<open>EmptyOrUnreadable\<close>.
\<close>

theorem terse_pdf_not_joined:
  "extractTextFromPdf tersePdfFile = Inr (concat (replicate 15 ''a\<newline>\<newline>'')) \<and>
   extractTextFromPdf tersePdfFile \<noteq> Inr (join ''\<newline>\<newline>'' (replicate 15 ''a'')) \<and>
   parseDocument tersePdfFile = Inl EmptyOrUnreadable"
proof -
  have "extractTextFromPdf tersePdfFile =
      Inr (concat (map (\<lambda>items. join '' '' items @ ''\<newline>\<newline>'') (replicate 15 [''a''])))"
    by (rule extractTextFromPdf_pages [where pdf = "replicate 16 (Some [''a''])"])
      (simp_all add: tersePdfFile_def)
  then have a: "extractTextFromPdf tersePdfFile = Inr (concat (replicate 15 ''a\<newline>\<newline>''))"
    by simp
  have b: "concat (replicate 15 ''a\<newline>\<newline>'') \<noteq> join ''\<newline>\<newline>'' (replicate 15 ''a'')"
    by (simp add: eval_nat_numeral)
  have "length (concat (replicate 15 ''a\<newline>\<newline>'')) < 50"
    by (simp add: eval_nat_numeral)
  with a have c: "parseDocument tersePdfFile = Inl EmptyOrUnreadable"
    by (simp add: parseDocument_def readDocument_def tersePdfFile_def)
  from a b c show ?thesis by simp
qed

text \<open>
  C5, amended. For a PDF of more than 15 pages whose first 15 pages can be read,
  \<open>extractTextFromPdf\<close> returns \<open>fullText\<close>: the texts of the pages 1 to 15 in order
  (the items of a page joined by a space), joined by a blank line and followed by one
  more blank line. The pages from the 16th on do not enter the result: replacing them by
  any others, or by none, gives the same text. The upload starts the read; when it
  settles, \<open>fullText\<close> becomes the input text if it has at least 50 characters, and the
  upload fails with \<open>EmptyOrUnreadable\<close> otherwise.
\<close>

theorem pdf_first_15_pages:
  assumes "ftype file = ''application/pdf''" and "fpdf file = Some pdf" and "15 < length pdf"
    and "take 15 pdf = map Some pages"
    and "fullText = join ''\<newline>\<newline>'' (map (join '' '') pages) @ ''\<newline>\<newline>''"
  shows "length pages = 15 \<and>
         extractTextFromPdf file = Inr fullText \<and>
         extractTextFromPdf (file\<lparr>fpdf := Some (take 15 pdf @ rest)\<rparr>) = Inr fullText \<and>
         handleFileUpload (Some file) s =
           (s\<lparr>status := PARSING_PDF, errorMsg := None\<rparr>, Some (PendingParse file)) \<and>
         (50 \<le> length fullText \<longrightarrow>
            parseDocument file = Inr fullText \<and>
            handleFileUpload_resume file s' =
              s'\<lparr>inputText := fullText, status := IDLE, activeTab := TabText\<rparr>) \<and>
         (length fullText < 50 \<longrightarrow>
            parseDocument file = Inl EmptyOrUnreadable \<and>
            handleFileUpload_resume file s' =
              s'\<lparr>errorMsg := Some ''The document appears to be empty or unreadable.'',
                 status := ERROR\<rparr>)"
proof -
  have "length (take 15 pdf) = length (map Some pages)"
    using assms(4) by (rule arg_cong)
  with assms(3) have b: "length pages = 15" by simp
  then have ne: "pages \<noteq> []" by auto
  have ft: "concat (map (\<lambda>items. join '' '' items @ ''\<newline>\<newline>'') pages) = fullText"
    unfolding assms(5) using ne by (rule concat_terminated)
  have "extractTextFromPdf file =
           Inr (concat (map (\<lambda>items. join '' '' items @ ''\<newline>\<newline>'') pages))"
    by (rule extractTextFromPdf_pages [OF assms(2) _ assms(4)]) (use assms(3) in simp)
  with ft have a: "extractTextFromPdf file = Inr fullText" by simp
  have "extractTextFromPdf (file\<lparr>fpdf := Some (take 15 pdf @ rest)\<rparr>) =
           Inr (concat (map (\<lambda>items. join '' '' items @ ''\<newline>\<newline>'') pages))"
    by (rule extractTextFromPdf_pages [where pdf = "take 15 pdf @ rest"])
      (use assms(3,4) b in simp_all)
  with ft have c: "extractTextFromPdf (file\<lparr>fpdf := Some (take 15 pdf @ rest)\<rparr>) = Inr fullText"
    by simp
  from a assms(1) have rd: "readDocument file = Inr fullText" by (simp add: readDocument_def)
  have d: "handleFileUpload (Some file) s =
           (s\<lparr>status := PARSING_PDF, errorMsg := None\<rparr>, Some (PendingParse file))"
    using assms(1) by (simp add: handleFileUpload_def)
  have e: "50 \<le> length fullText \<longrightarrow>
            parseDocument file = Inr fullText \<and>
            handleFileUpload_resume file s' =
              s'\<lparr>inputText := fullText, status := IDLE, activeTab := TabText\<rparr>"
    using rd by (simp add: parseDocument_def handleFileUpload_resume_def)
  have f: "length fullText < 50 \<longrightarrow>
            parseDocument file = Inl EmptyOrUnreadable \<and>
            handleFileUpload_resume file s' =
              s'\<lparr>errorMsg := Some ''The document appears to be empty or unreadable.'',
                 status := ERROR\<rparr>"
    using rd
    by (simp add: parseDocument_def handleFileUpload_resume_def EmptyOrUnreadable_def js_or_def)
  from a b c d e f show ?thesis by blast
qed

theorem pdf_first_15_pages_witness:
  "extractTextFromPdf samplePdfFile = Inr (concat (replicate 15 ''a b\<newline>\<newline>'')) \<and>
   extractTextFromPdf (samplePdfFile\<lparr>fpdf := Some (replicate 15 (Some [''a'', ''b'']))\<rparr>) =
     extractTextFromPdf samplePdfFile \<and>
   inputText (handleFileUpload_resume samplePdfFile initialState) =
     concat (replicate 15 ''a b\<newline>\<newline>'') \<and>
   status (handleFileUpload_resume tersePdfFile initialState) = ERROR"
proof -
  have t1: "join ''\<newline>\<newline>'' (map (join '' '') (replicate 15 [''a'', ''b''])) @ ''\<newline>\<newline>'' =
      concat (replicate 15 ''a b\<newline>\<newline>'')"
    by (simp add: eval_nat_numeral)
  have l1: "50 \<le> length (concat (replicate 15 ''a b\<newline>\<newline>''))"
    by (simp add: eval_nat_numeral)
  have l2: "length (join ''\<newline>\<newline>'' (map (join '' '') (replicate 15 [''a''])) @ ''\<newline>\<newline>'') < 50"
    by (simp add: eval_nat_numeral)
  from t1 l1 l2
    pdf_first_15_pages [of samplePdfFile "replicate 15 (Some [''a'', ''b'']) @ [Some [''z'']]"
      "replicate 15 [''a'', ''b'']" _ "[]" initialState initialState, OF _ _ _ _ refl]
    pdf_first_15_pages [of tersePdfFile "replicate 16 (Some [''a''])"
      "replicate 15 [''a'']" _ "[]" initialState initialState, OF _ _ _ _ refl]
  show ?thesis
    by (simp add: samplePdfFile_def tersePdfFile_def)
qed

text \<open>
  C6. For a file of type \<open>text/plain\<close> whose text can be read, the upload starts a read;
  when it settles, a text of at least 50 characters becomes the input text unchanged
  (status \<open>IDLE\<close>), and a text of fewer than 50 characters fails with
  \<open>EmptyOrUnreadable\<close>: its message is shown and the status is \<open>ERROR\<close>.
\<close>

theorem plain_text_ingestion:
  assumes "ftype file = ''text/plain''" and "ftext file = Inr text"
  shows "handleFileUpload (Some file) s =
           (s\<lparr>status := PARSING_PDF, errorMsg := None\<rparr>, Some (PendingParse file)) \<and>
         (50 \<le> length text \<longrightarrow>
            parseDocument file = Inr text \<and>
            handleFileUpload_resume file s' =
              s'\<lparr>inputText := text, status := IDLE, activeTab := TabText\<rparr>) \<and>
         (length text < 50 \<longrightarrow>
            parseDocument file = Inl EmptyOrUnreadable \<and>
            handleFileUpload_resume file s' =
              s'\<lparr>errorMsg := Some ''The document appears to be empty or unreadable.'',
                 status := ERROR\<rparr>)"
  using assms
  by (simp add: parseDocument_def readDocument_def handleFileUpload_def
      handleFileUpload_resume_def EmptyOrUnreadable_def js_or_def)

theorem plain_text_ingestion_witness:
  "parseDocument (sampleTextFile (replicate 50 (CHR ''x''))) = Inr (replicate 50 (CHR ''x'')) \<and>
   inputText (handleFileUpload_resume (sampleTextFile (replicate 50 (CHR ''x''))) initialState) =
     replicate 50 (CHR ''x'') \<and>
   parseDocument (sampleTextFile ''too short'') = Inl EmptyOrUnreadable \<and>
   status (handleFileUpload_resume (sampleTextFile ''too short'') initialState) = ERROR"
  using plain_text_ingestion [of "sampleTextFile (replicate 50 (CHR ''x''))"
      "replicate 50 (CHR ''x'')" initialState initialState]
    plain_text_ingestion [of "sampleTextFile ''too short''" "''too short''" initialState initialState]
  by (simp add: sampleTextFile_def)

text \<open>
  C7. A file whose declared type is neither \<open>application/pdf\<close> nor \<open>text/plain\<close> fails
  with \<open>UnsupportedFormat\<close>: the handler ends in status \<open>ERROR\<close> with that message,
  starts no read, and leaves the input text as it was.
\<close>

theorem unsupported_type:
  assumes "ftype file \<noteq> ''application/pdf''" and "ftype file \<noteq> ''text/plain''"
  shows "parseDocument file = Inl UnsupportedFormat \<and>
         handleFileUpload (Some file) s =
           (s\<lparr>status := ERROR, errorMsg := Some (message UnsupportedFormat)\<rparr>, None) \<and>
         inputText (fst (handleFileUpload (Some file) s)) = inputText s"
  using assms
  by (simp add: parseDocument_def readDocument_def handleFileUpload_def
      handleFileUpload_resume_def UnsupportedFormat_def js_or_def)

theorem unsupported_type_witness:
  "handleFileUpload (Some sampleImageFile) (initialState\<lparr>inputText := ''earlier text''\<rparr>) =
     (initialState\<lparr>inputText := ''earlier text'', status := ERROR,
        errorMsg := Some ''Unsupported file format. Please upload PDF or TXT.''\<rparr>, None)"
  using unsupported_type [of sampleImageFile "initialState\<lparr>inputText := ''earlier text''\<rparr>"]
  by (simp add: sampleImageFile_def UnsupportedFormat_def)

text \<open>
  C8. For a presentation and an index \<open>i\<close> of one of its slides, attaching an image to
  slide \<open>i\<close> and then removing the image of slide \<open>i\<close> leaves slide \<open>i\<close> without an image;
  the presentation is then the original one with the image of slide \<open>i\<close> cleared, and
  the original one itself when slide \<open>i\<close> had no image.
\<close>

theorem attach_then_remove:
  assumes "presentationData s = Some p" and "i < length (p_slides p)" and "fdataURL f = Some img"
  shows "handleUpdateSlideImage i (Some f) s = (s, Some (PendingSlideImage i f p)) \<and>
         presentationData (handleUpdateSlideImage_resume i f p s) = Some (setSlideImage p i (Some img)) \<and>
         s_image (p_slides (setSlideImage p i (Some img)) ! i) = Some img \<and>
         presentationData (fst (handleUpdateSlideImage i None (handleUpdateSlideImage_resume i f p s)))
           = Some (setSlideImage p i None) \<and>
         s_image (p_slides (setSlideImage p i None) ! i) = None \<and>
         (s_image (p_slides p ! i) = None \<longrightarrow> setSlideImage p i None = p)"
  using assms
  by (simp add: handleUpdateSlideImage_def handleUpdateSlideImage_resume_def
      setSlideImage_image setSlideImage_twice setSlideImage_same)

theorem attach_then_remove_witness:
  "presentationData (fst (handleUpdateSlideImage 0 None
      (handleUpdateSlideImage_resume 0 sampleImageFile samplePresentation
         (initialState\<lparr>presentationData := Some samplePresentation\<rparr>)))) = Some samplePresentation"
  using attach_then_remove [of "initialState\<lparr>presentationData := Some samplePresentation\<rparr>"
      samplePresentation 0 sampleImageFile "''data:image/png;base64,AA==''"]
  by (simp add: samplePresentation_def sampleSlide_def sampleImageFile_def)

text \<open>
  C9. When the export fails, the continuation of \<open>handleDownload\<close> sets the error
  message and the status \<open>ERROR\<close> and does not touch \<open>presentationData\<close>, in whatever
  state \<open>s'\<close> it runs; run right after the click, the presentation is still the exported
  one and the download button is enabled again.
\<close>

theorem export_failure_keeps_presentation:
  assumes "presentationData s = Some p" and "generatePptFile env p = Some err"
  shows "handleDownload s = (s\<lparr>status := GENERATING_PPT\<rparr>, Some (PendingExport p)) \<and>
         handleDownload_resume env p s' =
           s'\<lparr>errorMsg := Some ''Failed to generate PPT file.'', status := ERROR\<rparr> \<and>
         presentationData (handleDownload_resume env p s') = presentationData s' \<and>
         presentationData (handleDownload_resume env p (fst (handleDownload s))) = Some p \<and>
         enabled ClickDownload (handleDownload_resume env p (fst (handleDownload s)))"
  using assms
  by (simp add: handleDownload_def handleDownload_resume_def inputSection_def)

theorem export_failure_keeps_presentation_witness:
  "handleDownload_resume sampleEnv samplePresentation
     (fst (handleDownload (initialState\<lparr>presentationData := Some samplePresentation,
                                        status := SUCCESS\<rparr>))) =
   initialState\<lparr>presentationData := Some samplePresentation,
                errorMsg := Some ''Failed to generate PPT file.'', status := ERROR\<rparr>"
  using export_failure_keeps_presentation
    [of "initialState\<lparr>presentationData := Some samplePresentation, status := SUCCESS\<rparr>"
        samplePresentation sampleEnv "Error ''write failed''"
        "fst (handleDownload (initialState\<lparr>presentationData := Some samplePresentation,
                                          status := SUCCESS\<rparr>))"]
  by (simp add: sampleEnv_def handleDownload_def handleDownload_resume_def)

text \<open>
  C10. With an input text that is empty or all white space, \<open>handleGenerate\<close> sets the
  error message and returns: no request is started and no other cell changes, so the
  status keeps its value. The same holds for the click on the button, which runs the
  handler when the button is rendered and enabled and does nothing otherwise.
\<close>

theorem handleGenerate_blank:
  assumes "\<forall>c \<in> set (inputText s). isWhiteSpace c"
  shows "handleGenerate s =
           (s\<lparr>errorMsg := Some ''Please provide text or upload a document first.''\<rparr>, None) \<and>
         status (fst (handleGenerate s)) = status s \<and>
         step (UI ClickGenerate) \<lparr>app = s, inflight = qs\<rparr> =
           \<lparr>app = (if enabled ClickGenerate s then fst (handleGenerate s) else s),
            inflight = qs\<rparr>"
proof -
  from assms have "trim (inputText s) = []" by (simp add: trim_eq_Nil_iff)
  then have "handleGenerate s =
      (s\<lparr>errorMsg := Some ''Please provide text or upload a document first.''\<rparr>, None)"
    by (simp add: handleGenerate_def)
  then show ?thesis by simp
qed

theorem handleGenerate_blank_witness:
  "handleGenerate (initialState\<lparr>inputText := '' '', status := SUCCESS\<rparr>) =
     (initialState\<lparr>inputText := '' '', status := SUCCESS,
        errorMsg := Some ''Please provide text or upload a document first.''\<rparr>, None)"
  using handleGenerate_blank [of "initialState\<lparr>inputText := '' '', status := SUCCESS\<rparr>"]
  by (simp add: isWhiteSpace_def)

end
